theory Spec2Isabelle
  imports Complex_Main "HOL-Library.Product_Lexorder" "HOL-Library.Multiset"
begin

section \<open>Python values, exceptions and binary64 floats\<close>

text \<open>
  The pipeline of \<^verbatim>\<open>app.py\<close> is modelled function by function. An exception that leaves a
  Python function is a value \<open>Inl e\<close> of a sum type, a normal return is \<open>Inr v\<close>.
\<close>

datatype exn = ValueError | OverflowError | TypeError | AttributeError | OSError

definition bindE :: "exn + 'a \<Rightarrow> ('a \<Rightarrow> exn + 'b) \<Rightarrow> exn + 'b" where
  "bindE m f = (case m of Inl e \<Rightarrow> Inl e | Inr v \<Rightarrow> f v)"

text \<open>A list comprehension \<^verbatim>\<open>[f(x) for x in xs]\<close>: the first failing call raises.\<close>

fun traverse :: "('a \<Rightarrow> exn + 'b) \<Rightarrow> 'a list \<Rightarrow> exn + 'b list" where
  "traverse f [] = Inr []"
| "traverse f (x # xs) = bindE (f x) (\<lambda>y. bindE (traverse f xs) (\<lambda>ys. Inr (y # ys)))"

text \<open>
  A Python \<^verbatim>\<open>float\<close> is an IEEE 754 binary64 number: a finite value (a rational that
  has 53 significant bits), an infinity or NaN. NaN is the missing marker of pandas
  (\<^verbatim>\<open>np.nan\<close>). The sign of zero is not modelled: no comparison of the program sees it.
\<close>

datatype pyfloat = Fin rat | PInf | NInf | NaN

function bit_length :: "int \<Rightarrow> int" where
  "bit_length n = (if n \<le> 0 then 0 else 1 + bit_length (n div 2))"
  by pat_completeness auto
termination
  by (relation "measure nat") auto

declare bit_length.simps [simp del]

text \<open>Integer powers, by repeated squaring.\<close>

function ipow :: "int \<Rightarrow> int \<Rightarrow> int" where
  "ipow b e = (if e \<le> 0 then 1
               else if e mod 2 = 0 then (let h = ipow b (e div 2) in h * h)
               else b * ipow b (e - 1))"
  by pat_completeness auto
termination
  by (relation "measure (\<lambda>(b, e). nat e)") auto

declare ipow.simps [simp del]

definition pow2 :: "int \<Rightarrow> rat" where
  "pow2 e = (if 0 \<le> e then of_int (ipow 2 e) else 1 / of_int (ipow 2 (- e)))"

definition pow10 :: "int \<Rightarrow> rat" where
  "pow10 e = (if 0 \<le> e then of_int (ipow 10 e) else 1 / of_int (ipow 10 (- e)))"

text \<open>\<open>floorlog2 q\<close> is the binary exponent of a positive rational: \<open>2 ^ k \<le> q < 2 ^ (k + 1)\<close>.\<close>

definition floorlog2 :: "rat \<Rightarrow> int" where
  "floorlog2 q = (case quotient_of q of (n, d) \<Rightarrow>
     let k = bit_length n - bit_length d
     in if pow2 k \<le> q then k else k - 1)"

definition round_half_even :: "rat \<Rightarrow> int" where
  "round_half_even q = (let f = \<lfloor>q\<rfloor>; d = q - of_int f
     in if d < 1 / 2 then f else if 1 / 2 < d then f + 1 else if even f then f else f + 1)"

text \<open>
  Rounding of an exact result to binary64, round-to-nearest, ties to even: 53 bits of
  precision, gradual underflow below \<open>2 ^ (-1022)\<close>, overflow to an infinity from
  \<open>2 ^ 1024\<close> on.
\<close>

definition rnd :: "rat \<Rightarrow> pyfloat" where
  "rnd q = (if q = 0 then Fin 0 else
     let a = \<bar>q\<bar>;
         e = max (floorlog2 a - 52) (- 1074);
         v = of_int (round_half_even (a / pow2 e)) * pow2 e
     in if pow2 1024 \<le> v then (if 0 < q then PInf else NInf)
        else Fin (if 0 < q then v else - v))"

fun fneg :: "pyfloat \<Rightarrow> pyfloat" where
  "fneg (Fin q) = Fin (- q)"
| "fneg PInf = NInf"
| "fneg NInf = PInf"
| "fneg NaN = NaN"

fun fadd :: "pyfloat \<Rightarrow> pyfloat \<Rightarrow> pyfloat" where
  "fadd NaN _ = NaN"
| "fadd _ NaN = NaN"
| "fadd (Fin a) (Fin b) = rnd (a + b)"
| "fadd PInf NInf = NaN"
| "fadd NInf PInf = NaN"
| "fadd PInf _ = PInf"
| "fadd NInf _ = NInf"
| "fadd (Fin a) b = b"

definition fsub :: "pyfloat \<Rightarrow> pyfloat \<Rightarrow> pyfloat" where
  "fsub a b = fadd a (fneg b)"

definition fsign :: "pyfloat \<Rightarrow> int" where
  "fsign x = (case x of Fin q \<Rightarrow> sgn \<lfloor>sgn q\<rfloor> | PInf \<Rightarrow> 1 | NInf \<Rightarrow> - 1 | NaN \<Rightarrow> 0)"

fun fmul :: "pyfloat \<Rightarrow> pyfloat \<Rightarrow> pyfloat" where
  "fmul NaN _ = NaN"
| "fmul _ NaN = NaN"
| "fmul (Fin a) (Fin b) = rnd (a * b)"
| "fmul a b = (let s = fsign a * fsign b in if s = 0 then NaN else if 0 < s then PInf else NInf)"

text \<open>Halving, as in the mean of two values: exact except in the subnormal range.\<close>

fun fhalf :: "pyfloat \<Rightarrow> pyfloat" where
  "fhalf (Fin a) = rnd (a / 2)"
| "fhalf x = x"

text \<open>Comparison of floats: every comparison with NaN is false.\<close>

fun flt :: "pyfloat \<Rightarrow> pyfloat \<Rightarrow> bool" where
  "flt NaN _ = False"
| "flt _ NaN = False"
| "flt (Fin a) (Fin b) = (a < b)"
| "flt NInf NInf = False"
| "flt NInf _ = True"
| "flt _ NInf = False"
| "flt PInf _ = False"
| "flt (Fin a) PInf = True"

definition fgt :: "pyfloat \<Rightarrow> pyfloat \<Rightarrow> bool" where
  "fgt a b = flt b a"

text \<open>\<^verbatim>\<open>int(x)\<close> of a float truncates toward zero; it raises on an infinity and on NaN.\<close>

definition trunc_int :: "rat \<Rightarrow> int" where
  "trunc_int q = (if 0 \<le> q then \<lfloor>q\<rfloor> else \<lceil>q\<rceil>)"

definition py_int :: "pyfloat \<Rightarrow> exn + int" where
  "py_int x = (case x of
       Fin q \<Rightarrow> Inr (trunc_int q)
     | PInf \<Rightarrow> Inl OverflowError
     | NInf \<Rightarrow> Inl OverflowError
     | NaN \<Rightarrow> Inl ValueError)"

text \<open>\<^verbatim>\<open>round(x)\<close> of a float gives the nearest integer, a tie going to the even one.\<close>

definition py_round :: "pyfloat \<Rightarrow> exn + int" where
  "py_round x = (case x of
       Fin q \<Rightarrow> Inr (round_half_even q)
     | PInf \<Rightarrow> Inl OverflowError
     | NInf \<Rightarrow> Inl OverflowError
     | NaN \<Rightarrow> Inl ValueError)"

text \<open>An \<^verbatim>\<open>int\<close> operand of a float operation is converted first; too large an int raises.\<close>

definition float_of_int :: "int \<Rightarrow> exn + pyfloat" where
  "float_of_int i = (case rnd (of_int i) of Fin q \<Rightarrow> Inr (Fin q) | _ \<Rightarrow> Inl OverflowError)"

section \<open>Strings\<close>

text \<open>
  Strings are sequences of characters with Python's classification of the ASCII range.
  \<^verbatim>\<open>str.isspace\<close> holds for tab, line feed, vertical tab, form feed, carriage return,
  the four separators \<^verbatim>\<open>0x1c\<close> to \<^verbatim>\<open>0x1f\<close> and the space.
\<close>

definition isspace :: "char \<Rightarrow> bool" where
  "isspace c = (c \<in> set [CHR 0x09, CHR 0x0A, CHR 0x0B, CHR 0x0C, CHR 0x0D,
                          CHR 0x1C, CHR 0x1D, CHR 0x1E, CHR 0x1F, CHR 0x20])"

text \<open>
  The C-level whitespace that \<^verbatim>\<open>float\<close> and \<^verbatim>\<open>complex\<close> skip in an ASCII string:
  the space and the five characters \<^verbatim>\<open>0x09\<close> to \<^verbatim>\<open>0x0d\<close>.
\<close>

definition c_isspace :: "char \<Rightarrow> bool" where
  "c_isspace c = (c \<in> set [CHR 0x09, CHR 0x0A, CHR 0x0B, CHR 0x0C, CHR 0x0D, CHR 0x20])"

definition isdigit :: "char \<Rightarrow> bool" where
  "isdigit c = (c \<in> set ''0123456789'')"

definition strip_with :: "(char \<Rightarrow> bool) \<Rightarrow> string \<Rightarrow> string" where
  "strip_with P s = rev (dropWhile P (rev (dropWhile P s)))"

text \<open>\<^verbatim>\<open>s.strip()\<close> and \<^verbatim>\<open>s.strip(chars)\<close>.\<close>

definition strip :: "string \<Rightarrow> string" where
  "strip s = strip_with isspace s"

definition strip_chars :: "string \<Rightarrow> string \<Rightarrow> string" where
  "strip_chars cs s = strip_with (\<lambda>c. c \<in> set cs) s"

text \<open>\<^verbatim>\<open>s.split()\<close>: the maximal runs of non-space characters, in order.\<close>

fun split_from :: "string \<Rightarrow> string \<Rightarrow> string list" where
  "split_from cur [] = (if cur = [] then [] else [cur])"
| "split_from cur (c # cs) =
     (if isspace c then (if cur = [] then split_from [] cs else cur # split_from [] cs)
      else split_from (cur @ [c]) cs)"

definition split :: "string \<Rightarrow> string list" where
  "split s = split_from [] s"

section \<open>Python's \<^verbatim>\<open>float(str)\<close>\<close>

definition digit_val :: "char \<Rightarrow> int" where
  "digit_val c = of_char c - 48"

definition digits_value :: "string \<Rightarrow> int" where
  "digits_value ds = foldl (\<lambda>a c. 10 * a + digit_val c) 0 ds"

definition lower :: "char \<Rightarrow> char" where
  "lower c = (let n = (of_char c :: nat) in if 65 \<le> n \<and> n \<le> 90 then char_of (n + 32) else c)"

text \<open>The exponent part: consumed only when at least one digit follows the \<^verbatim>\<open>e\<close>.\<close>

definition parse_exponent :: "string \<Rightarrow> int \<times> string" where
  "parse_exponent s = (case s of
       [] \<Rightarrow> (0, s)
     | c # t \<Rightarrow>
         if c = CHR ''e'' \<or> c = CHR ''E'' then
           (let neg = (case t of [] \<Rightarrow> False | d # _ \<Rightarrow> d = CHR ''-'');
                u = (case t of [] \<Rightarrow> t | d # t' \<Rightarrow> if d = CHR ''-'' \<or> d = CHR ''+'' then t' else t);
                ds = takeWhile isdigit u
            in if ds = [] then (0, s)
               else ((if neg then - digits_value ds else digits_value ds), dropWhile isdigit u))
         else (0, s))"

text \<open>
  The unsigned decimal number at the start of a string and the rest of the string:
  digits with an optional point, at least one digit in all, an optional exponent.
\<close>

definition parse_decimal :: "string \<Rightarrow> (rat \<times> string) option" where
  "parse_decimal s =
     (let ip = takeWhile isdigit s;
          r1 = dropWhile isdigit s;
          fp = (case r1 of [] \<Rightarrow> [] | c # t \<Rightarrow> if c = CHR ''.'' then takeWhile isdigit t else []);
          r2 = (case r1 of [] \<Rightarrow> [] | c # t \<Rightarrow> if c = CHR ''.'' then dropWhile isdigit t else r1)
      in if ip = [] \<and> fp = [] then None
         else (case parse_exponent r2 of (ex, r3) \<Rightarrow>
                 Some (of_int (digits_value (ip @ fp)) * pow10 (ex - int (length fp)), r3)))"

text \<open>\<^verbatim>\<open>inf\<close>, \<^verbatim>\<open>infinity\<close> and \<^verbatim>\<open>nan\<close>, in any case.\<close>

definition parse_inf_or_nan :: "string \<Rightarrow> (pyfloat \<times> string) option" where
  "parse_inf_or_nan s =
     (if map lower (take 3 s) = ''inf'' then
        (if map lower (take 5 (drop 3 s)) = ''inity'' then Some (PInf, drop 8 s)
         else Some (PInf, drop 3 s))
      else if map lower (take 3 s) = ''nan'' then Some (NaN, drop 3 s)
      else None)"

definition parse_unsigned :: "string \<Rightarrow> (pyfloat \<times> string) option" where
  "parse_unsigned s = (case parse_decimal s of
       Some (q, r) \<Rightarrow> Some (rnd q, r)
     | None \<Rightarrow> parse_inf_or_nan s)"

text \<open>
  The longest prefix that is a float literal, with its correctly rounded value
  (\<^verbatim>\<open>PyOS_string_to_double\<close>); \<open>None\<close> when no prefix is one.
\<close>

definition parse_double :: "string \<Rightarrow> (pyfloat \<times> string) option" where
  "parse_double s = (case s of
       [] \<Rightarrow> None
     | c # t \<Rightarrow>
         if c = CHR ''-'' then map_option (\<lambda>(v, r). (fneg v, r)) (parse_unsigned t)
         else if c = CHR ''+'' then parse_unsigned t
         else parse_unsigned s)"

text \<open>Digit-group underscores: allowed only between two digits; they are removed.\<close>

fun strip_underscores :: "char \<Rightarrow> string \<Rightarrow> string option" where
  "strip_underscores prev [] = (if prev = CHR ''_'' then None else Some [])"
| "strip_underscores prev (c # cs) =
     (if c = CHR ''_'' then (if isdigit prev then strip_underscores c cs else None)
      else if prev = CHR ''_'' \<and> \<not> isdigit c then None
      else map_option ((#) c) (strip_underscores c cs))"

definition py_float :: "string \<Rightarrow> exn + pyfloat" where
  "py_float s = (case strip_underscores (CHR 0x00) (strip_with c_isspace s) of
       None \<Rightarrow> Inl ValueError
     | Some t \<Rightarrow> (case parse_double t of
           None \<Rightarrow> Inl ValueError
         | Some (v, r) \<Rightarrow> if r = [] then Inr v else Inl ValueError))"

section \<open>Timestamps\<close>

text \<open>
  A pandas timestamp is \<^verbatim>\<open>NaT\<close> (the missing marker) or a point in time given by its
  calendar fields. \<^verbatim>\<open>pd.Timestamp(year=..., ...)\<close> hands the fields to Python's
  \<^verbatim>\<open>datetime\<close>, which accepts years 1 to 9999 and the days the month has, and raises
  \<^verbatim>\<open>ValueError\<close> otherwise (\<^verbatim>\<open>OverflowError\<close> for a field that does not fit a C int).
  The narrower range of years that pandas versions with nanosecond timestamps only accept
  is not modelled.
\<close>

datatype timestamp = NaT
  | Timestamp (t_year: int) (t_month: int) (t_day: int) (t_hour: int) (t_minute: int)
      (t_second: int) (t_microsecond: int)

definition is_leap :: "int \<Rightarrow> bool" where
  "is_leap y = (y mod 4 = 0 \<and> (y mod 100 \<noteq> 0 \<or> y mod 400 = 0))"

definition days_in_month :: "int \<Rightarrow> int \<Rightarrow> int" where
  "days_in_month y m = (if m = 2 then (if is_leap y then 29 else 28)
                        else if m = 4 \<or> m = 6 \<or> m = 9 \<or> m = 11 then 30 else 31)"

definition valid_fields :: "int \<Rightarrow> int \<Rightarrow> int \<Rightarrow> int \<Rightarrow> int \<Rightarrow> int \<Rightarrow> int \<Rightarrow> bool" where
  "valid_fields y mo d h mi s us =
     (1 \<le> y \<and> y \<le> 9999 \<and> 1 \<le> mo \<and> mo \<le> 12 \<and> 1 \<le> d \<and> d \<le> days_in_month y mo \<and>
      0 \<le> h \<and> h \<le> 23 \<and> 0 \<le> mi \<and> mi \<le> 59 \<and> 0 \<le> s \<and> s \<le> 59 \<and> 0 \<le> us \<and> us \<le> 999999)"

definition fits_c_int :: "int \<Rightarrow> bool" where
  "fits_c_int i = (- 2147483648 \<le> i \<and> i \<le> 2147483647)"

definition pd_Timestamp :: "int \<Rightarrow> int \<Rightarrow> int \<Rightarrow> int \<Rightarrow> int \<Rightarrow> int \<Rightarrow> int \<Rightarrow> exn + timestamp" where
  "pd_Timestamp y mo d h mi s us =
     (if \<not> list_all fits_c_int [y, mo, d, h, mi, s, us] then Inl OverflowError
      else if valid_fields y mo d h mi s us then Inr (Timestamp y mo d h mi s us)
      else Inl ValueError)"

section \<open>The Timestamp Normalizer: \<^verbatim>\<open>parse_matlab_time\<close>\<close>

text \<open>The tokens of line 12 and 13: brackets and outer whitespace stripped, split on whitespace.\<close>

definition time_tokens :: "string \<Rightarrow> string list" where
  "time_tokens str_time = split (strip_chars ''[]'' (strip str_time))"

text \<open>Lines 17 to 21, on the six parsed numbers.\<close>

definition build_timestamp ::
  "pyfloat \<Rightarrow> pyfloat \<Rightarrow> pyfloat \<Rightarrow> pyfloat \<Rightarrow> pyfloat \<Rightarrow> pyfloat \<Rightarrow> exn + timestamp" where
  "build_timestamp year month day hour minute sec =
     bindE (py_int sec) (\<lambda>sec_int.
     bindE (float_of_int sec_int) (\<lambda>sec_int_f.
     bindE (py_round (fmul (fsub sec sec_int_f) (Fin 1000000))) (\<lambda>microseconds.
     bindE (py_int year) (\<lambda>y.
     bindE (py_int month) (\<lambda>mo.
     bindE (py_int day) (\<lambda>d.
     bindE (py_int hour) (\<lambda>h.
     bindE (py_int minute) (\<lambda>mi.
       pd_Timestamp y mo d h mi sec_int microseconds))))))))"

definition parse_matlab_time :: "string \<Rightarrow> exn + timestamp" where
  "parse_matlab_time str_time =
     (let parts = time_tokens str_time
      in if length parts \<noteq> 6 then Inr NaT
         else bindE (traverse py_float parts) (\<lambda>arr.
                case arr of
                  [year, month, day, hour, minute, sec] \<Rightarrow>
                    build_timestamp year month day hour minute sec
                | _ \<Rightarrow> Inl ValueError))"

section \<open>The Numeric Coercer: \<^verbatim>\<open>to_complex_or_float\<close>\<close>

text \<open>
  The values a cell of a table read by \<^verbatim>\<open>pd.read_csv\<close> can hold, as Python
  objects: \<^verbatim>\<open>None\<close>, a bool, an int, a float (NaN for an empty cell), a string;
  \<open>PyOther\<close> stands for a non-null scalar of any other type.
\<close>

datatype pyval = PyNone | PyBool bool | PyInt int | PyFloat pyfloat | PyStr string | PyOther

text \<open>What \<^verbatim>\<open>to_complex_or_float\<close> returns: \<^verbatim>\<open>np.nan\<close> or a complex number.\<close>

datatype coerced = CNan | PyComplex pyfloat pyfloat

definition pd_isnull :: "pyval \<Rightarrow> bool" where
  "pd_isnull x = (x = PyNone \<or> x = PyFloat NaN)"

definition expect_j :: "pyfloat \<times> pyfloat \<Rightarrow> string \<Rightarrow> ((pyfloat \<times> pyfloat) \<times> string) option" where
  "expect_j z s = (case s of
       [] \<Rightarrow> None
     | c # t \<Rightarrow> if c = CHR ''j'' \<or> c = CHR ''J'' then Some (z, t) else None)"

text \<open>
  The forms of a complex literal: a float; a float followed by \<^verbatim>\<open>j\<close>; a float, a signed
  float and \<^verbatim>\<open>j\<close>; and the forms where the imaginary unit stands alone
  (\<^verbatim>\<open>1+j\<close>, \<^verbatim>\<open>-j\<close>, \<^verbatim>\<open>j\<close>).
\<close>

definition parse_complex_body :: "string \<Rightarrow> ((pyfloat \<times> pyfloat) \<times> string) option" where
  "parse_complex_body s = (case parse_double s of
       Some (z, r) \<Rightarrow> (case r of
           [] \<Rightarrow> Some ((z, Fin 0), [])
         | c # t \<Rightarrow>
             if c = CHR ''+'' \<or> c = CHR ''-'' then
               (case parse_double r of
                  Some (y, r') \<Rightarrow> expect_j (z, y) r'
                | None \<Rightarrow> expect_j (z, if c = CHR ''+'' then Fin 1 else Fin (- 1)) t)
             else if c = CHR ''j'' \<or> c = CHR ''J'' then Some ((Fin 0, z), t)
             else Some ((z, Fin 0), r))
     | None \<Rightarrow> (case s of
           [] \<Rightarrow> None
         | c # t \<Rightarrow>
             if c = CHR ''+'' then expect_j (Fin 0, Fin 1) t
             else if c = CHR ''-'' then expect_j (Fin 0, Fin (- 1)) t
             else expect_j (Fin 0, Fin 1) s))"

text \<open>
  \<^verbatim>\<open>complex(str)\<close>: whitespace around the literal and one pair of parentheses around it
  are accepted; anything else raises \<^verbatim>\<open>ValueError\<close>.
\<close>

definition py_complex :: "string \<Rightarrow> exn + pyfloat \<times> pyfloat" where
  "py_complex s = (case strip_underscores (CHR 0x00) s of
       None \<Rightarrow> Inl ValueError
     | Some t \<Rightarrow>
         (let s1 = dropWhile c_isspace t;
              bracket = (case s1 of [] \<Rightarrow> False | c # _ \<Rightarrow> c = CHR ''('');
              s2 = (if bracket then dropWhile c_isspace (tl s1) else s1)
          in case parse_complex_body s2 of
               None \<Rightarrow> Inl ValueError
             | Some (z, r) \<Rightarrow>
                 (let r1 = dropWhile c_isspace r
                  in if bracket then
                       (case r1 of
                          [] \<Rightarrow> Inl ValueError
                        | c # r2 \<Rightarrow> if c = CHR '')'' \<and> dropWhile c_isspace r2 = [] then Inr z
                                    else Inl ValueError)
                     else if r1 = [] then Inr z else Inl ValueError)))"

text \<open>Lines 44 to 57.\<close>

definition to_complex_or_float :: "pyval \<Rightarrow> exn + coerced" where
  "to_complex_or_float x =
     (if pd_isnull x then Inr CNan
      else case x of
          PyFloat f \<Rightarrow> Inr (PyComplex f (Fin 0))
        | PyInt i \<Rightarrow> bindE (float_of_int i) (\<lambda>f. Inr (PyComplex f (Fin 0)))
        | PyBool b \<Rightarrow> Inr (PyComplex (Fin (if b then 1 else 0)) (Fin 0))
        | PyStr s \<Rightarrow>
            (let x' = strip_chars ''()'' (strip s)
             in if x' = [] then Inr CNan
                else case py_complex x' of
                       Inr (re, im) \<Rightarrow> Inr (PyComplex re im)
                     | Inl e \<Rightarrow> if e = ValueError then Inr CNan else Inl e)
        | _ \<Rightarrow> Inr CNan)"

text \<open>Line 69: \<^verbatim>\<open>lambda c: c.real if isinstance(c, complex) else c\<close>.\<close>

definition real_value :: "coerced \<Rightarrow> pyfloat" where
  "real_value c = (case c of PyComplex re im \<Rightarrow> re | CNan \<Rightarrow> NaN)"

text \<open>The Numeric Coercer as the file reader applies it: coercion, then the real part.\<close>

definition numeric_coercer :: "pyval \<Rightarrow> exn + pyfloat" where
  "numeric_coercer x = bindE (to_complex_or_float x) (\<lambda>c. Inr (real_value c))"

section \<open>The Impedance File Reader: \<^verbatim>\<open>get_rectified_impedance\<close>\<close>

text \<open>
  \<^verbatim>\<open>Series.median()\<close> skips NaN; it returns NaN when nothing is left, the middle value
  of an odd number of values and the mean of the two middle values of an even number.
\<close>

definition fkey :: "pyfloat \<Rightarrow> int \<times> rat" where
  "fkey x = (case x of NInf \<Rightarrow> (- 1, 0) | Fin q \<Rightarrow> (0, q) | PInf \<Rightarrow> (1, 0) | NaN \<Rightarrow> (2, 0))"

definition median :: "pyfloat list \<Rightarrow> pyfloat" where
  "median xs = (let ys = sort_key fkey (filter (\<lambda>x. x \<noteq> NaN) xs); n = length ys
     in if n = 0 then NaN
        else if odd n then ys ! (n div 2)
        else fhalf (fadd (ys ! (n div 2 - 1)) (ys ! (n div 2))))"

text \<open>
  What \<^verbatim>\<open>pd.read_csv\<close> does with an existing path: it raises, or it returns a table, here
  the columns by name. A file system maps a path to \<open>None\<close> when nothing exists there.
\<close>

datatype csv_file = Unreadable exn | Frame "(string \<times> pyval list) list"

type_synonym filesystem = "string \<Rightarrow> csv_file option"

definition read_csv :: "csv_file \<Rightarrow> exn + (string \<times> pyval list) list" where
  "read_csv f = (case f of Unreadable e \<Rightarrow> Inl e | Frame df \<Rightarrow> Inr df)"

text \<open>Lines 64 to 72, the body of the \<^verbatim>\<open>try\<close>.\<close>

definition rectified_body :: "csv_file \<Rightarrow> exn + pyfloat" where
  "rectified_body f =
     bindE (read_csv f) (\<lambda>df.
       case map_of df ''Rectified_Impedance'' of
         Some col \<Rightarrow>
           bindE (traverse to_complex_or_float col) (\<lambda>cs.
             Inr (median (map real_value cs)))
       | None \<Rightarrow> Inr NaN)"

text \<open>Lines 60 to 75: every exception of the body is caught and mapped to NaN.\<close>

definition get_rectified_impedance :: "filesystem \<Rightarrow> string \<Rightarrow> exn + pyfloat" where
  "get_rectified_impedance fs file_path =
     (case fs file_path of
        None \<Rightarrow> Inr NaN
      | Some f \<Rightarrow> (case rectified_body f of Inl e \<Rightarrow> Inr NaN | Inr v \<Rightarrow> Inr v))"

section \<open>Metadata: loading, classification and indexing\<close>

record raw_row =
  raw_battery_id :: pyval
  raw_type :: pyval
  raw_start_time :: pyval
  raw_Re :: pyval
  raw_Rct :: pyval
  raw_Capacity :: pyval
  raw_filename :: pyval

record row =
  battery_id :: pyval
  rtype :: pyval
  start_time :: timestamp
  Re :: pyfloat
  Rct :: pyfloat
  Capacity :: pyfloat
  filename :: pyval

text \<open>
  Line 24 applies \<^verbatim>\<open>parse_matlab_time\<close> to every cell; a cell that is not a string has
  no \<^verbatim>\<open>strip\<close> method.
\<close>

definition parse_cell :: "pyval \<Rightarrow> exn + timestamp" where
  "parse_cell x = (case x of PyStr s \<Rightarrow> parse_matlab_time s | _ \<Rightarrow> Inl AttributeError)"

text \<open>
  \<^verbatim>\<open>sort_values('start_time')\<close> orders by time with NaT last. Timestamps are ordered by
  their fields, the year first. The default algorithm of pandas fixes no order among rows
  with equal times; the model keeps them in their original order (a stable sort), as
  pandas itself does for the rows without a time.
\<close>

definition ts_key :: "timestamp \<Rightarrow> bool \<times> int \<times> int \<times> int \<times> int \<times> int \<times> int \<times> int" where
  "ts_key t = (case t of
       NaT \<Rightarrow> (True, 0, 0, 0, 0, 0, 0, 0)
     | Timestamp y mo d h mi s us \<Rightarrow> (False, y, mo, d, h, mi, s, us))"

definition sort_by_time :: "('a \<Rightarrow> timestamp) \<Rightarrow> 'a list \<Rightarrow> 'a list" where
  "sort_by_time time xs = sort_key (\<lambda>x. ts_key (time x)) xs"

definition sort_values :: "row list \<Rightarrow> row list" where
  "sort_values xs = sort_by_time start_time xs"

text \<open>
  \<^verbatim>\<open>pd.to_numeric(..., errors='coerce')\<close> on a cell. A string is read as a plain decimal
  number (whitespace around it, a sign, digits with an optional point, an optional
  exponent) or as one of the words for infinity; anything else gives NaN. The value of
  the digits is taken correctly rounded.
\<close>

definition pd_str_to_double :: "string \<Rightarrow> pyfloat option" where
  "pd_str_to_double s =
     (let t = dropWhile c_isspace s;
          neg = (case t of [] \<Rightarrow> False | c # _ \<Rightarrow> c = CHR ''-'');
          u = (case t of [] \<Rightarrow> t | c # t' \<Rightarrow> if c = CHR ''-'' \<or> c = CHR ''+'' then t' else t)
      in case parse_decimal u of
           Some (q, r) \<Rightarrow>
             (if dropWhile c_isspace r = [] then
                (case rnd (if neg then - q else q) of Fin v \<Rightarrow> Some (Fin v) | _ \<Rightarrow> None)
              else None)
         | None \<Rightarrow>
             if map lower s \<in> set [''inf'', ''+inf'', ''infinity'', ''+infinity''] then Some PInf
             else if map lower s \<in> set [''-inf'', ''-infinity''] then Some NInf
             else None)"

definition to_numeric :: "pyval \<Rightarrow> pyfloat" where
  "to_numeric x = (case x of
       PyFloat f \<Rightarrow> f
     | PyInt i \<Rightarrow> rnd (of_int i)
     | PyBool b \<Rightarrow> Fin (if b then 1 else 0)
     | PyStr s \<Rightarrow> (case pd_str_to_double s of Some f \<Rightarrow> f | None \<Rightarrow> NaN)
     | _ \<Rightarrow> NaN)"

text \<open>Lines 24 to 29: the metadata table, from the rows of the file.\<close>

definition coerce_row :: "raw_row \<times> timestamp \<Rightarrow> row" where
  "coerce_row p = (case p of (r, t) \<Rightarrow>
     \<lparr>battery_id = raw_battery_id r, rtype = raw_type r, start_time = t,
      Re = to_numeric (raw_Re r), Rct = to_numeric (raw_Rct r),
      Capacity = to_numeric (raw_Capacity r), filename = raw_filename r\<rparr>)"

definition load_metadata :: "raw_row list \<Rightarrow> exn + row list" where
  "load_metadata raw =
     bindE (traverse (\<lambda>r. parse_cell (raw_start_time r)) raw) (\<lambda>ts.
       Inr (map coerce_row (sort_by_time snd (zip raw ts))))"


definition is_impedance :: "row \<Rightarrow> bool" where
  "is_impedance r = (rtype r = PyStr ''impedance'')"


definition impedance_data :: "row list \<Rightarrow> (nat \<times> row) list" where
  "impedance_data metadata = enumerate 1 (sort_values (filter is_impedance metadata))"

section \<open>Rectified impedance per row and the Cleaning Filter\<close>

record impedance_record =
  impedance_cycle_number :: nat
  meta :: row
  Rectified_Impedance :: pyfloat

definition data_base_path :: string where
  "data_base_path = ''cleaned_dataset/data/''"

text \<open>\<^verbatim>\<open>os.path.join\<close> of the base path and a file name; only a string can be joined.\<close>

definition os_path_join :: "string \<Rightarrow> pyval \<Rightarrow> exn + string" where
  "os_path_join base fname = (case fname of
       PyStr f \<Rightarrow> Inr (if take 1 f = ''/'' then f else base @ f)
     | _ \<Rightarrow> Inl TypeError)"

text \<open>Lines 79 to 86.\<close>

definition rectify_row :: "filesystem \<Rightarrow> nat \<times> row \<Rightarrow> exn + impedance_record" where
  "rectify_row fs p = (case p of (n, r) \<Rightarrow>
     bindE (os_path_join data_base_path (filename r)) (\<lambda>file_path.
     bindE (get_rectified_impedance fs file_path) (\<lambda>rect_val.
       Inr \<lparr>impedance_cycle_number = n, meta = r, Rectified_Impedance = rect_val\<rparr>)))"

text \<open>Lines 88 to 95: \<^verbatim>\<open>dropna\<close> on the three columns, then the six comparisons.\<close>

definition not_na :: "impedance_record \<Rightarrow> bool" where
  "not_na x = (Re (meta x) \<noteq> NaN \<and> Rct (meta x) \<noteq> NaN \<and> Rectified_Impedance x \<noteq> NaN)"

definition in_range :: "impedance_record \<Rightarrow> bool" where
  "in_range x =
     (fgt (Re (meta x)) (Fin 0) \<and> flt (Re (meta x)) (Fin 10) \<and>
      fgt (Rct (meta x)) (Fin 0) \<and> flt (Rct (meta x)) (Fin 10) \<and>
      fgt (Rectified_Impedance x) (Fin 0) \<and> flt (Rectified_Impedance x) (Fin 10))"

definition clean_filter :: "impedance_record list \<Rightarrow> impedance_record list" where
  "clean_filter xs = filter in_range (filter not_na xs)"

text \<open>Lines 32 to 96 for the impedance partition: index, rectify, clean.\<close>

definition impedance_data_clean :: "filesystem \<Rightarrow> row list \<Rightarrow> exn + impedance_record list" where
  "impedance_data_clean fs metadata =
     bindE (traverse (rectify_row fs) (impedance_data metadata)) (\<lambda>xs. Inr (clean_filter xs))"


section \<open>The words of the specification\<close>

text \<open>
  The Cleaning Filter as the specification states it: a value is kept when it is present
  and strictly between 0 and 10, a record when its three values are.
\<close>

definition plausible :: "pyfloat \<Rightarrow> bool" where
  "plausible v = (case v of Fin q \<Rightarrow> 0 < q \<and> q < 10 | _ \<Rightarrow> False)"

definition spec_keeps :: "impedance_record \<Rightarrow> bool" where
  "spec_keeps x = (plausible (Re (meta x)) \<and> plausible (Rct (meta x)) \<and>
                   plausible (Rectified_Impedance x))"


section \<open>Example data\<close>

text \<open>
  A small metadata table, in file order: three impedance and three discharge rows, one of
  them without a start time. The measurement files of the first and the third impedance
  row exist; the file of the second does not.
\<close>

definition ex_r1 :: row where
  "ex_r1 = \<lparr>battery_id = PyStr ''B0005'', rtype = PyStr ''impedance'',
     start_time = Timestamp 2008 4 2 13 8 17 921000, Re = Fin (1 / 16), Rct = Fin (1 / 8),
     Capacity = NaN, filename = PyStr ''00001.csv''\<rparr>"

definition ex_r2 :: row where
  "ex_r2 = \<lparr>battery_id = PyStr ''B0005'', rtype = PyStr ''impedance'',
     start_time = Timestamp 2008 4 3 9 0 0 0, Re = Fin (1 / 16), Rct = Fin (1 / 8),
     Capacity = NaN, filename = PyStr ''00002.csv''\<rparr>"

definition ex_r3 :: row where
  "ex_r3 = \<lparr>battery_id = PyStr ''B0005'', rtype = PyStr ''impedance'',
     start_time = Timestamp 2008 4 5 18 30 0 500000, Re = Fin (1 / 4), Rct = Fin (1 / 2),
     Capacity = NaN, filename = PyStr ''00003.csv''\<rparr>"

definition ex_d1 :: row where
  "ex_d1 = \<lparr>battery_id = PyStr ''B0005'', rtype = PyStr ''discharge'',
     start_time = Timestamp 2008 4 2 15 25 41 0, Re = NaN, Rct = NaN,
     Capacity = Fin (7 / 4), filename = PyStr ''00004.csv''\<rparr>"

definition ex_d2 :: row where
  "ex_d2 = \<lparr>battery_id = PyStr ''B0005'', rtype = PyStr ''discharge'',
     start_time = NaT, Re = NaN, Rct = NaN,
     Capacity = Fin (3 / 2), filename = PyStr ''00005.csv''\<rparr>"

definition ex_d3 :: row where
  "ex_d3 = \<lparr>battery_id = PyStr ''B0006'', rtype = PyStr ''discharge'',
     start_time = Timestamp 2008 4 1 8 0 0 0, Re = NaN, Rct = NaN,
     Capacity = Fin (15 / 8), filename = PyStr ''00006.csv''\<rparr>"

definition ex_metadata :: "row list" where
  "ex_metadata = [ex_r3, ex_d2, ex_d1, ex_r1, ex_d3, ex_r2]"

definition ex_fs :: filesystem where
  "ex_fs p =
     (if p = ''cleaned_dataset/data/00001.csv'' then
        Some (Frame [(''Sense_current'', [PyStr ''(820-40j)'', PyStr ''(822-41j)'', PyStr ''(825-39j)'']),
                     (''Rectified_Impedance'', [PyFloat (Fin 1), PyFloat (Fin 3), PyFloat (Fin 5)])])
      else if p = ''cleaned_dataset/data/00003.csv'' then
        Some (Frame [(''Rectified_Impedance'', [PyStr ''(0.5+0.2j)'', PyStr ''(0.25-0.1j)''])])
      else None)"

definition ex_raw :: raw_row where
  "ex_raw = \<lparr>raw_battery_id = PyStr ''B0005'', raw_type = PyStr ''impedance'',
     raw_start_time = PyStr ''[2008 4 2 13 8 17.921]'', raw_Re = PyStr ''(0.5+0.2j)'',
     raw_Rct = PyStr ''0.125'', raw_Capacity = PyFloat NaN, raw_filename = PyStr ''00001.csv''\<rparr>"

definition ex_records :: "impedance_record list" where
  "ex_records =
     [\<lparr>impedance_cycle_number = 1, meta = ex_r1\<lparr>Re := Fin 0\<rparr>, Rectified_Impedance = Fin 5\<rparr>,
      \<lparr>impedance_cycle_number = 2, meta = ex_r2\<lparr>Rct := Fin 10\<rparr>, Rectified_Impedance = Fin 5\<rparr>,
      \<lparr>impedance_cycle_number = 3, meta = ex_r3\<lparr>Re := Fin 5, Rct := Fin 5\<rparr>,
         Rectified_Impedance = Fin 5\<rparr>]"

section \<open>Properties\<close>

subsection \<open>Exceptions and traversals\<close>

lemma bindE_Inl [simp]: "bindE (Inl e) f = Inl e"
  by (simp add: bindE_def)

lemma bindE_Inr [simp]: "bindE (Inr v) f = f v"
  by (simp add: bindE_def)

lemma bindE_eq_Inr: "bindE m f = Inr y \<longleftrightarrow> (\<exists>v. m = Inr v \<and> f v = Inr y)"
  by (cases m) simp_all

lemma traverse_eq_Inr: "traverse f xs = Inr ys \<longleftrightarrow> map f xs = map Inr ys"
proof (induction xs arbitrary: ys)
  case Nil
  then show ?case by auto
next
  case (Cons x xs)
  show ?case
  proof (cases "f x")
    case (Inl e)
    then show ?thesis by (cases ys) auto
  next
    case (Inr y)
    then show ?thesis
      using Cons.IH by (cases ys; cases "traverse f xs") auto
  qed
qed










subsection \<open>Rounding to binary64 stays finite\<close>























subsection \<open>The normalizer on six tokens\<close>







subsection \<open>Claims about the Timestamp Normalizer\<close>

text \<open>
  C9. An input whose token count, after stripping brackets and splitting on whitespace, is
  not 6 makes the normalizer return the missing value NaT; it does not raise.
\<close>

theorem normalizer_wrong_token_count:
  "length (time_tokens s) \<noteq> 6 \<Longrightarrow> parse_matlab_time s = Inr NaT"
  by (simp add: parse_matlab_time_def)

theorem normalizer_wrong_token_count_witness:
  "length (time_tokens ''[2015 3 18]'') \<noteq> 6 \<and> parse_matlab_time ''[2015 3 18]'' = Inr NaT"
proof -
  have h: "length (time_tokens ''[2015 3 18]'') \<noteq> 6"
    by code_simp
  show ?thesis
    using h normalizer_wrong_token_count [OF h] by simp
qed







subsection \<open>The coercer and the reader\<close>

lemma py_complex_error: "py_complex s = Inl e \<Longrightarrow> e = ValueError"
  by (auto simp: py_complex_def Let_def split: option.splits if_splits prod.splits list.splits)

lemma to_complex_or_float_str:
  "to_complex_or_float (PyStr s) =
     (let x' = strip_chars ''()'' (strip s)
      in if x' = [] then Inr CNan
         else case py_complex x' of Inr (re, im) \<Rightarrow> Inr (PyComplex re im) | Inl e \<Rightarrow> Inr CNan)"
  by (auto simp: to_complex_or_float_def pd_isnull_def Let_def
      split: sum.splits prod.splits dest: py_complex_error)

lemma traverse_numeric_coercer:
  "traverse numeric_coercer col = Inr vs \<longleftrightarrow>
     (\<exists>cs. traverse to_complex_or_float col = Inr cs \<and> vs = map real_value cs)"
proof (induction col arbitrary: vs)
  case Nil
  then show ?case by auto
next
  case (Cons x col)
  show ?case
  proof (cases "to_complex_or_float x")
    case (Inl e)
    then show ?thesis by (simp add: numeric_coercer_def)
  next
    case (Inr c)
    then have nc: "numeric_coercer x = Inr (real_value c)"
      by (simp add: numeric_coercer_def)
    show ?thesis
    proof (cases "traverse to_complex_or_float col")
      case (Inl e)
      then have "\<nexists>ws. traverse numeric_coercer col = Inr ws"
        using Cons.IH by simp
      then obtain e' where "traverse numeric_coercer col = Inl e'"
        by (cases "traverse numeric_coercer col") auto
      with Inl Inr nc show ?thesis by simp
    next
      case cs: (Inr cs)
      then have "traverse numeric_coercer col = Inr (map real_value cs)"
        using Cons.IH by simp
      with cs Inr nc show ?thesis by auto
    qed
  qed
qed



lemma median_all_missing: "\<forall>v\<in>set vs. v = NaN \<Longrightarrow> median vs = NaN"
proof -
  assume "\<forall>v\<in>set vs. v = NaN"
  then have "filter (\<lambda>x. x \<noteq> NaN) vs = []"
    by (simp add: filter_empty_conv)
  then show ?thesis
    by (simp add: median_def)
qed


lemma get_rectified_impedance_total: "\<exists>v. get_rectified_impedance fs p = Inr v"
  by (auto simp: get_rectified_impedance_def split: option.splits sum.splits)

lemma get_rectified_impedance_frame:
  assumes "fs p = Some (Frame df)" and "map_of df ''Rectified_Impedance'' = Some col"
  shows "get_rectified_impedance fs p =
           Inr (case traverse numeric_coercer col of Inl e \<Rightarrow> NaN | Inr vs \<Rightarrow> median vs)"
proof (cases "traverse numeric_coercer col")
  case (Inl e)
  then have "\<nexists>cs. traverse to_complex_or_float col = Inr cs"
    using traverse_numeric_coercer [of col] by auto
  then obtain e' where "traverse to_complex_or_float col = Inl e'"
    by (cases "traverse to_complex_or_float col") auto
  with Inl assms show ?thesis
    by (simp add: get_rectified_impedance_def rectified_body_def read_csv_def)
next
  case (Inr vs)
  then obtain cs where "traverse to_complex_or_float col = Inr cs" "vs = map real_value cs"
    using traverse_numeric_coercer by blast
  with Inr assms show ?thesis
    by (simp add: get_rectified_impedance_def rectified_body_def read_csv_def)
qed

subsection \<open>Claims about the Numeric Coercer and the Impedance File Reader\<close>

text \<open>
  C8. The Numeric Coercer, with the real-part extraction of the reader, maps the string
  \<^verbatim>\<open>(0.5+0.2j)\<close> to 0.5, the empty string and \<^verbatim>\<open>None\<close> to missing, the plain number
  3.2 to itself, every string that does not parse as a complex literal and every value
  of another type to missing; of a complex literal it carries the real part only.
\<close>

theorem numeric_coercer_cases:
  "numeric_coercer (PyStr ''(0.5+0.2j)'') = Inr (Fin (1 / 2)) \<and>
   numeric_coercer (PyStr '''') = Inr NaN \<and>
   numeric_coercer PyNone = Inr NaN \<and>
   (\<forall>d. rnd (16 / 5) = Fin d \<longrightarrow> numeric_coercer (PyFloat (Fin d)) = Inr (Fin d)) \<and>
   (\<forall>s e. py_complex (strip_chars ''()'' (strip s)) = Inl e \<longrightarrow>
      numeric_coercer (PyStr s) = Inr NaN) \<and>
   numeric_coercer PyOther = Inr NaN \<and>
   (\<forall>s re im. strip_chars ''()'' (strip s) \<noteq> [] \<and>
      py_complex (strip_chars ''()'' (strip s)) = Inr (re, im) \<longrightarrow>
      numeric_coercer (PyStr s) = Inr re)"
proof (intro conjI allI impI)
  show "numeric_coercer (PyStr ''(0.5+0.2j)'') = Inr (Fin (1 / 2))"
    by code_simp
  show "numeric_coercer (PyStr '''') = Inr NaN"
    by code_simp
  show "numeric_coercer PyNone = Inr NaN"
    by (simp add: numeric_coercer_def to_complex_or_float_def pd_isnull_def real_value_def)
  show "numeric_coercer PyOther = Inr NaN"
    by (simp add: numeric_coercer_def to_complex_or_float_def pd_isnull_def real_value_def)
next
  fix d
  show "numeric_coercer (PyFloat (Fin d)) = Inr (Fin d)"
    by (simp add: numeric_coercer_def to_complex_or_float_def pd_isnull_def real_value_def)
next
  fix s e
  assume "py_complex (strip_chars ''()'' (strip s)) = Inl e"
  then show "numeric_coercer (PyStr s) = Inr NaN"
    by (simp add: numeric_coercer_def to_complex_or_float_str real_value_def Let_def)
next
  fix s re im
  assume "strip_chars ''()'' (strip s) \<noteq> [] \<and>
      py_complex (strip_chars ''()'' (strip s)) = Inr (re, im)"
  then show "numeric_coercer (PyStr s) = Inr re"
    by (simp add: numeric_coercer_def to_complex_or_float_str real_value_def Let_def)
qed

theorem numeric_coercer_cases_witness:
  "rnd (16 / 5) = Fin (3602879701896397 / 1125899906842624) \<and>
   numeric_coercer (PyFloat (Fin (3602879701896397 / 1125899906842624))) =
     Inr (Fin (3602879701896397 / 1125899906842624)) \<and>
   py_complex (strip_chars ''()'' (strip ''abc'')) = Inl ValueError \<and>
   numeric_coercer (PyStr ''abc'') = Inr NaN \<and>
   strip_chars ''()'' (strip '' (1.5-2j) '') \<noteq> [] \<and>
   py_complex (strip_chars ''()'' (strip '' (1.5-2j) '')) = Inr (Fin (3 / 2), Fin (- 2)) \<and>
   numeric_coercer (PyStr '' (1.5-2j) '') = Inr (Fin (3 / 2))"
proof -
  have h1: "rnd (16 / 5) = Fin (3602879701896397 / 1125899906842624)"
    by code_simp
  have h2: "py_complex (strip_chars ''()'' (strip ''abc'')) = Inl ValueError"
    by code_simp
  have h3: "strip_chars ''()'' (strip '' (1.5-2j) '') \<noteq> []"
    by code_simp
  have h4: "py_complex (strip_chars ''()'' (strip '' (1.5-2j) '')) = Inr (Fin (3 / 2), Fin (- 2))"
    by code_simp
  show ?thesis
    using numeric_coercer_cases h1 h2 h3 h4 by blast
qed

text \<open>
  C5. For every file system and path the Impedance File Reader returns a value or the
  missing marker and raises nothing: a path that does not exist, a file that cannot be
  read, a table without the \<^verbatim>\<open>Rectified_Impedance\<close> column, a column whose values are
  all missing, and any exception in the body of the \<^verbatim>\<open>try\<close> all give missing.
\<close>

theorem reader_never_raises:
  "(\<exists>v. get_rectified_impedance fs p = Inr v) \<and>
   (fs p = None \<longrightarrow> get_rectified_impedance fs p = Inr NaN) \<and>
   (\<forall>e. fs p = Some (Unreadable e) \<longrightarrow> get_rectified_impedance fs p = Inr NaN) \<and>
   (\<forall>df. fs p = Some (Frame df) \<and> map_of df ''Rectified_Impedance'' = None \<longrightarrow>
      get_rectified_impedance fs p = Inr NaN) \<and>
   (\<forall>df col. fs p = Some (Frame df) \<and> map_of df ''Rectified_Impedance'' = Some col \<and>
      (\<forall>x\<in>set col. numeric_coercer x = Inr NaN) \<longrightarrow>
      get_rectified_impedance fs p = Inr NaN) \<and>
   (\<forall>f e. fs p = Some f \<and> rectified_body f = Inl e \<longrightarrow>
      get_rectified_impedance fs p = Inr NaN)"
proof (intro conjI allI impI)
  show "\<exists>v. get_rectified_impedance fs p = Inr v"
    by (rule get_rectified_impedance_total)
  show "fs p = None \<Longrightarrow> get_rectified_impedance fs p = Inr NaN"
    by (simp add: get_rectified_impedance_def)
next
  fix e
  assume "fs p = Some (Unreadable e)"
  then show "get_rectified_impedance fs p = Inr NaN"
    by (simp add: get_rectified_impedance_def rectified_body_def read_csv_def)
next
  fix df
  assume "fs p = Some (Frame df) \<and> map_of df ''Rectified_Impedance'' = None"
  then show "get_rectified_impedance fs p = Inr NaN"
    by (simp add: get_rectified_impedance_def rectified_body_def read_csv_def)
next
  fix df col
  assume a: "fs p = Some (Frame df) \<and> map_of df ''Rectified_Impedance'' = Some col \<and>
      (\<forall>x\<in>set col. numeric_coercer x = Inr NaN)"
  show "get_rectified_impedance fs p = Inr NaN"
  proof (cases "traverse numeric_coercer col")
    case (Inl e)
    with a show ?thesis
      by (simp add: get_rectified_impedance_frame)
  next
    case (Inr vs)
    then have m: "map numeric_coercer col = map Inr vs"
      by (simp add: traverse_eq_Inr)
    have "\<forall>v\<in>set vs. v = NaN"
    proof
      fix v
      assume "v \<in> set vs"
      then have "Inr v \<in> set (map numeric_coercer col)"
        using m by simp
      then obtain x where "x \<in> set col" "numeric_coercer x = Inr v"
        by auto
      with a show "v = NaN"
        by auto
    qed
    then have "median vs = NaN"
      by (rule median_all_missing)
    with a Inr show ?thesis
      by (simp add: get_rectified_impedance_frame)
  qed
next
  fix f e
  assume "fs p = Some f \<and> rectified_body f = Inl e"
  then show "get_rectified_impedance fs p = Inr NaN"
    by (simp add: get_rectified_impedance_def)
qed

theorem reader_never_raises_witness:
  "get_rectified_impedance (\<lambda>p. None) ''cleaned_dataset/data/00001.csv'' = Inr NaN \<and>
   get_rectified_impedance (\<lambda>p. Some (Unreadable OSError)) ''cleaned_dataset/data/00001.csv'' = Inr NaN \<and>
   map_of [(''Time'', [PyFloat (Fin 1)])] ''Rectified_Impedance'' = None \<and>
   get_rectified_impedance (\<lambda>p. Some (Frame [(''Time'', [PyFloat (Fin 1)])]))
     ''cleaned_dataset/data/00001.csv'' = Inr NaN \<and>
   numeric_coercer (PyStr '''') = Inr NaN \<and> numeric_coercer (PyFloat NaN) = Inr NaN \<and>
   numeric_coercer (PyStr ''abc'') = Inr NaN \<and>
   get_rectified_impedance
     (\<lambda>p. Some (Frame [(''Rectified_Impedance'', [PyStr '''', PyFloat NaN, PyStr ''abc''])]))
     ''cleaned_dataset/data/00001.csv'' = Inr NaN \<and>
   rectified_body (Unreadable ValueError) = Inl ValueError \<and>
   get_rectified_impedance (\<lambda>p. Some (Unreadable ValueError))
     ''cleaned_dataset/data/00001.csv'' = Inr NaN"
proof -
  have h3: "map_of [(''Time'', [PyFloat (Fin 1)])] ''Rectified_Impedance'' = None"
    by simp
  have h4c: "numeric_coercer (PyStr '''') = Inr NaN \<and> numeric_coercer (PyFloat NaN) = Inr NaN \<and>
             numeric_coercer (PyStr ''abc'') = Inr NaN"
    by code_simp
  then have h4: "\<forall>x\<in>set [PyStr '''', PyFloat NaN, PyStr ''abc'']. numeric_coercer x = Inr NaN"
    by simp
  have h4': "map_of [(''Rectified_Impedance'', [PyStr '''', PyFloat NaN, PyStr ''abc''])]
               ''Rectified_Impedance'' = Some [PyStr '''', PyFloat NaN, PyStr ''abc'']"
    by simp
  have h5: "rectified_body (Unreadable ValueError) = Inl ValueError"
    by (simp add: rectified_body_def read_csv_def)
  have r1: "get_rectified_impedance (\<lambda>p. None) ''cleaned_dataset/data/00001.csv'' = Inr NaN"
    using reader_never_raises [of "\<lambda>p. None" "''cleaned_dataset/data/00001.csv''"] by simp
  have r2: "get_rectified_impedance (\<lambda>p. Some (Unreadable OSError))
              ''cleaned_dataset/data/00001.csv'' = Inr NaN"
    using reader_never_raises [of "\<lambda>p. Some (Unreadable OSError)"
        "''cleaned_dataset/data/00001.csv''"] by simp
  have r3: "get_rectified_impedance (\<lambda>p. Some (Frame [(''Time'', [PyFloat (Fin 1)])]))
     ''cleaned_dataset/data/00001.csv'' = Inr NaN"
    using reader_never_raises [of "\<lambda>p. Some (Frame [(''Time'', [PyFloat (Fin 1)])])"
        "''cleaned_dataset/data/00001.csv''"] h3 by blast
  have r4: "get_rectified_impedance
     (\<lambda>p. Some (Frame [(''Rectified_Impedance'', [PyStr '''', PyFloat NaN, PyStr ''abc''])]))
     ''cleaned_dataset/data/00001.csv'' = Inr NaN"
    using reader_never_raises [of
        "\<lambda>p. Some (Frame [(''Rectified_Impedance'', [PyStr '''', PyFloat NaN, PyStr ''abc''])])"
        "''cleaned_dataset/data/00001.csv''"] h4 h4' by blast
  have r5: "get_rectified_impedance (\<lambda>p. Some (Unreadable ValueError))
     ''cleaned_dataset/data/00001.csv'' = Inr NaN"
    using reader_never_raises [of "\<lambda>p. Some (Unreadable ValueError)"
        "''cleaned_dataset/data/00001.csv''"] h5 by blast
  show ?thesis
    using r1 r2 h3 r3 h4c r4 h5 r5 by blast
qed



subsection \<open>The Cleaning Filter, the indexer and the metadata columns\<close>

lemma plausible_iff: "plausible v \<longleftrightarrow> v \<noteq> NaN \<and> fgt v (Fin 0) \<and> flt v (Fin 10)"
  by (cases v) (simp_all add: plausible_def fgt_def)

lemma keeps_iff: "not_na x \<and> in_range x \<longleftrightarrow> spec_keeps x"
  by (auto simp: not_na_def in_range_def spec_keeps_def plausible_iff)

lemma clean_filter_eq: "clean_filter xs = filter spec_keeps xs"
proof -
  have "clean_filter xs = filter (\<lambda>x. not_na x \<and> in_range x) xs"
    by (simp add: clean_filter_def conj_commute)
  then show ?thesis
    by (simp add: keeps_iff)
qed

text \<open>
  C4. The Cleaning Filter keeps a record if and only if its \<^verbatim>\<open>Re\<close>, \<^verbatim>\<open>Rct\<close> and
  rectified impedance are all present and each lies strictly between 0 and 10: a record
  with \<^verbatim>\<open>Re = 0\<close> or \<^verbatim>\<open>Rct = 10\<close> is dropped, one with the three values 5 is kept,
  and the records that survive are records of the input, unchanged.
\<close>

theorem cleaning_filter_keeps_iff:
  "clean_filter xs = filter spec_keeps xs \<and>
   (x \<in> set (clean_filter xs) \<longleftrightarrow> x \<in> set xs \<and> spec_keeps x) \<and>
   (Re (meta x) = Fin 0 \<longrightarrow> x \<notin> set (clean_filter xs)) \<and>
   (Rct (meta x) = Fin 10 \<longrightarrow> x \<notin> set (clean_filter xs)) \<and>
   (x \<in> set xs \<and> Re (meta x) = Fin 5 \<and> Rct (meta x) = Fin 5 \<and>
      Rectified_Impedance x = Fin 5 \<longrightarrow> x \<in> set (clean_filter xs))"
  by (auto simp: clean_filter_eq spec_keeps_def plausible_def)

theorem cleaning_filter_keeps_iff_witness:
  "Re (meta (ex_records ! 0)) = Fin 0 \<and> ex_records ! 0 \<notin> set (clean_filter ex_records) \<and>
   Rct (meta (ex_records ! 1)) = Fin 10 \<and> ex_records ! 1 \<notin> set (clean_filter ex_records) \<and>
   ex_records ! 2 \<in> set ex_records \<and>
   Re (meta (ex_records ! 2)) = Fin 5 \<and> Rct (meta (ex_records ! 2)) = Fin 5 \<and>
   Rectified_Impedance (ex_records ! 2) = Fin 5 \<and>
   ex_records ! 2 \<in> set (clean_filter ex_records)"
proof -
  have h0: "Re (meta (ex_records ! 0)) = Fin 0"
    by code_simp
  have h1: "Rct (meta (ex_records ! 1)) = Fin 10"
    by code_simp
  have h2: "ex_records ! 2 \<in> set ex_records"
    by (simp add: ex_records_def)
  have h3: "Re (meta (ex_records ! 2)) = Fin 5 \<and> Rct (meta (ex_records ! 2)) = Fin 5 \<and>
            Rectified_Impedance (ex_records ! 2) = Fin 5"
    by code_simp
  show ?thesis
    using cleaning_filter_keeps_iff [of ex_records "ex_records ! 0"]
      cleaning_filter_keeps_iff [of ex_records "ex_records ! 1"]
      cleaning_filter_keeps_iff [of ex_records "ex_records ! 2"] h0 h1 h2 h3
    by blast
qed













lemma rectify_row_missing_file:
  assumes "os_path_join data_base_path (filename r) = Inr p" and "fs p = None"
  shows "rectify_row fs (n, r) =
           Inr \<lparr>impedance_cycle_number = n, meta = r, Rectified_Impedance = NaN\<rparr>"
  using assms by (simp add: rectify_row_def get_rectified_impedance_def)

lemma rectify_row_value:
  assumes "os_path_join data_base_path (filename r) = Inr p"
    and "get_rectified_impedance fs p = Inr v"
  shows "rectify_row fs (n, r) =
           Inr \<lparr>impedance_cycle_number = n, meta = r, Rectified_Impedance = v\<rparr>"
  using assms by (simp add: rectify_row_def)

text \<open>
  C3. Cycle numbers are assigned before the Cleaning Filter and kept by it: of three
  impedance rows, in chronological order, whose second has no measurement file while the
  other two pass the filter, the cleaned set holds the first and the third with the
  numbers 1 and 3.
\<close>

theorem numbering_precedes_cleaning:
  assumes "sort_values (filter is_impedance md) = [r1, r2, r3]"
    and "os_path_join data_base_path (filename r1) = Inr p1"
    and "os_path_join data_base_path (filename r2) = Inr p2"
    and "os_path_join data_base_path (filename r3) = Inr p3"
    and "fs p2 = None"
    and "get_rectified_impedance fs p1 = Inr v1"
    and "get_rectified_impedance fs p3 = Inr v3"
    and "plausible (Re r1) \<and> plausible (Rct r1) \<and> plausible v1"
    and "plausible (Re r3) \<and> plausible (Rct r3) \<and> plausible v3"
  shows "impedance_data_clean fs md =
           Inr [\<lparr>impedance_cycle_number = 1, meta = r1, Rectified_Impedance = v1\<rparr>,
                \<lparr>impedance_cycle_number = 3, meta = r3, Rectified_Impedance = v3\<rparr>]"
proof -
  have i: "impedance_data md = [(1, r1), (2, r2), (3, r3)]"
    using assms(1) by (simp add: impedance_data_def eval_nat_numeral)
  have x1: "rectify_row fs (1, r1) =
        Inr \<lparr>impedance_cycle_number = 1, meta = r1, Rectified_Impedance = v1\<rparr>"
    using assms(2,6) by (rule rectify_row_value)
  have x2: "rectify_row fs (2, r2) =
        Inr \<lparr>impedance_cycle_number = 2, meta = r2, Rectified_Impedance = NaN\<rparr>"
    using assms(3,5) by (simp add: rectify_row_missing_file)
  have x3: "rectify_row fs (3, r3) =
        Inr \<lparr>impedance_cycle_number = 3, meta = r3, Rectified_Impedance = v3\<rparr>"
    using assms(4,7) by (rule rectify_row_value)
  have t: "traverse (rectify_row fs) (impedance_data md) =
        Inr [\<lparr>impedance_cycle_number = 1, meta = r1, Rectified_Impedance = v1\<rparr>,
             \<lparr>impedance_cycle_number = 2, meta = r2, Rectified_Impedance = NaN\<rparr>,
             \<lparr>impedance_cycle_number = 3, meta = r3, Rectified_Impedance = v3\<rparr>]"
    unfolding i using x1 x2 x3 by simp
  show ?thesis
    unfolding impedance_data_clean_def t
    using assms(8,9) by (simp add: clean_filter_eq spec_keeps_def plausible_def)
qed

theorem numbering_precedes_cleaning_witness:
  "sort_values (filter is_impedance (sort_values ex_metadata)) = [ex_r1, ex_r2, ex_r3] \<and>
   os_path_join data_base_path (filename ex_r1) = Inr ''cleaned_dataset/data/00001.csv'' \<and>
   os_path_join data_base_path (filename ex_r2) = Inr ''cleaned_dataset/data/00002.csv'' \<and>
   os_path_join data_base_path (filename ex_r3) = Inr ''cleaned_dataset/data/00003.csv'' \<and>
   ex_fs ''cleaned_dataset/data/00002.csv'' = None \<and>
   get_rectified_impedance ex_fs ''cleaned_dataset/data/00001.csv'' = Inr (Fin 3) \<and>
   get_rectified_impedance ex_fs ''cleaned_dataset/data/00003.csv'' = Inr (Fin (3 / 8)) \<and>
   plausible (Re ex_r1) \<and> plausible (Rct ex_r1) \<and> plausible (Fin 3) \<and>
   plausible (Re ex_r3) \<and> plausible (Rct ex_r3) \<and> plausible (Fin (3 / 8)) \<and>
   impedance_data_clean ex_fs (sort_values ex_metadata) =
     Inr [\<lparr>impedance_cycle_number = 1, meta = ex_r1, Rectified_Impedance = Fin 3\<rparr>,
          \<lparr>impedance_cycle_number = 3, meta = ex_r3, Rectified_Impedance = Fin (3 / 8)\<rparr>]"
proof -
  have h1: "sort_values (filter is_impedance (sort_values ex_metadata)) = [ex_r1, ex_r2, ex_r3]"
    by code_simp
  have h2: "os_path_join data_base_path (filename ex_r1) = Inr ''cleaned_dataset/data/00001.csv''"
    by code_simp
  have h3: "os_path_join data_base_path (filename ex_r2) = Inr ''cleaned_dataset/data/00002.csv''"
    by code_simp
  have h4: "os_path_join data_base_path (filename ex_r3) = Inr ''cleaned_dataset/data/00003.csv''"
    by code_simp
  have h5: "ex_fs ''cleaned_dataset/data/00002.csv'' = None"
    by code_simp
  have h6: "get_rectified_impedance ex_fs ''cleaned_dataset/data/00001.csv'' = Inr (Fin 3)"
    by code_simp
  have h7: "get_rectified_impedance ex_fs ''cleaned_dataset/data/00003.csv'' = Inr (Fin (3 / 8))"
    by code_simp
  have h8: "plausible (Re ex_r1) \<and> plausible (Rct ex_r1) \<and> plausible (Fin 3)"
    by code_simp
  have h9: "plausible (Re ex_r3) \<and> plausible (Rct ex_r3) \<and> plausible (Fin (3 / 8))"
    by code_simp
  show ?thesis
    using numbering_precedes_cleaning [OF h1 h2 h3 h4 h5 h6 h7 h8 h9] h1 h2 h3 h4 h5 h6 h7 h8 h9
    by simp
qed

lemma lower_paren: "lower (CHR ''('') = CHR ''(''"
  by (simp add: lower_def)

lemma to_numeric_parenthesised: "to_numeric (PyStr (CHR ''('' # s)) = NaN"
proof -
  have "parse_decimal (CHR ''('' # s) = None"
    by (simp add: parse_decimal_def isdigit_def)
  then show ?thesis
    by (simp add: to_numeric_def pd_str_to_double_def c_isspace_def lower_paren)
qed

lemma load_metadata_cells:
  assumes "load_metadata raw = Inr md" and "r \<in> set md"
  shows "\<exists>x\<in>set raw. Re r = to_numeric (raw_Re x) \<and> Rct r = to_numeric (raw_Rct x) \<and>
           Capacity r = to_numeric (raw_Capacity x)"
proof -
  from assms(1) obtain ts where
    md: "md = map coerce_row (sort_by_time snd (zip raw ts))"
    by (auto simp: load_metadata_def bindE_eq_Inr)
  with assms(2) obtain x t where xt: "(x, t) \<in> set (zip raw ts)" "r = coerce_row (x, t)"
    by (auto simp: sort_by_time_def)
  then have "x \<in> set raw"
    by (meson set_zip_leftD)
  with xt show ?thesis
    by (auto simp: coerce_row_def)
qed

text \<open>
  C10. The metadata columns \<^verbatim>\<open>Re\<close>, \<^verbatim>\<open>Rct\<close> and \<^verbatim>\<open>Capacity\<close> go through plain
  numeric parsing: there the string \<^verbatim>\<open>(0.5+0.2j)\<close>, like every string that opens with a
  parenthesis, becomes missing, while the Numeric Coercer of the file reader gives its
  real part 0.5.
\<close>

theorem metadata_plain_numeric_coercion:
  "to_numeric (PyStr ''(0.5+0.2j)'') = NaN \<and>
   numeric_coercer (PyStr ''(0.5+0.2j)'') = Inr (Fin (1 / 2)) \<and>
   (\<forall>s. to_numeric (PyStr (CHR ''('' # s)) = NaN) \<and>
   (\<forall>raw md. load_metadata raw = Inr md \<longrightarrow>
      (\<forall>r\<in>set md. \<exists>x\<in>set raw. Re r = to_numeric (raw_Re x) \<and>
         Rct r = to_numeric (raw_Rct x) \<and> Capacity r = to_numeric (raw_Capacity x)))"
proof (intro conjI allI impI ballI)
  show "to_numeric (PyStr ''(0.5+0.2j)'') = NaN"
    by (rule to_numeric_parenthesised)
  show "numeric_coercer (PyStr ''(0.5+0.2j)'') = Inr (Fin (1 / 2))"
    by code_simp
next
  fix s
  show "to_numeric (PyStr (CHR ''('' # s)) = NaN"
    by (rule to_numeric_parenthesised)
next
  fix raw md r
  assume "load_metadata raw = Inr md" and "r \<in> set md"
  then show "\<exists>x\<in>set raw. Re r = to_numeric (raw_Re x) \<and>
         Rct r = to_numeric (raw_Rct x) \<and> Capacity r = to_numeric (raw_Capacity x)"
    by (rule load_metadata_cells)
qed

theorem metadata_plain_numeric_coercion_witness:
  "load_metadata [ex_raw] = Inr [ex_r1\<lparr>Re := NaN\<rparr>] \<and>
   raw_Re ex_raw = PyStr ''(0.5+0.2j)'' \<and>
   Re (ex_r1\<lparr>Re := NaN\<rparr>) = to_numeric (raw_Re ex_raw) \<and>
   Rct (ex_r1\<lparr>Re := NaN\<rparr>) = to_numeric (raw_Rct ex_raw) \<and>
   Capacity (ex_r1\<lparr>Re := NaN\<rparr>) = to_numeric (raw_Capacity ex_raw)"
proof -
  have h1: "load_metadata [ex_raw] = Inr [ex_r1\<lparr>Re := NaN\<rparr>]"
    by code_simp
  have h2: "raw_Re ex_raw = PyStr ''(0.5+0.2j)''"
    by (simp add: ex_raw_def)
  have "\<forall>r\<in>set [ex_r1\<lparr>Re := NaN\<rparr>]. \<exists>x\<in>set [ex_raw]. Re r = to_numeric (raw_Re x) \<and>
      Rct r = to_numeric (raw_Rct x) \<and> Capacity r = to_numeric (raw_Capacity x)"
    using metadata_plain_numeric_coercion h1 by blast
  then show ?thesis
    using h1 h2 by simp
qed

end
